theory Spec2Isabelle
  imports Complex_Main
begin

section \<open>Errors and sequencing\<close>

text \<open>
  Three ways a constructor or a call can stop: the \<open>assert\<close> of \<open>call\<close>, the
  configuration check of the embedding factory, and an exception raised inside the
  host framework (a layer constructor or its shape inference).
\<close>

datatype error = AssertionError | ConfigurationError | FrameworkError

definition bindE :: "error + 'a \<Rightarrow> ('a \<Rightarrow> error + 'b) \<Rightarrow> error + 'b" where
  "bindE m f = (case m of Inl e \<Rightarrow> Inl e | Inr v \<Rightarrow> f v)"

text \<open>A \<open>for\<close> loop that appends one result per element and stops at the first exception.\<close>

fun mapE :: "('a \<Rightarrow> error + 'b) \<Rightarrow> 'a list \<Rightarrow> error + 'b list" where
  "mapE f [] = Inr []"
| "mapE f (x # xs) = bindE (f x) (\<lambda>y. bindE (mapE f xs) (\<lambda>ys. Inr (y # ys)))"

text \<open>A \<open>for\<close> loop that threads a loop state and stops at the first exception.\<close>

fun foldE :: "('s \<Rightarrow> 'a \<Rightarrow> error + 's) \<Rightarrow> 's \<Rightarrow> 'a list \<Rightarrow> error + 's" where
  "foldE f s [] = Inr s"
| "foldE f s (x # xs) = bindE (f s x) (\<lambda>s'. foldE f s' xs)"

section \<open>The host framework: layers, symbolic tensors, shape inference\<close>

text \<open>
  Modelled from the spec: the layer classes, \<open>Input\<close>, \<open>concatenate\<close>, the backend
  functions and \<open>keras.Model\<close> belong to the host framework and are not among the
  sources. A layer is the record of the arguments its constructor was given; a symbolic
  tensor is the expression that produced it together with its inferred shape; a shape is
  a list of dimensions in which the batch dimension is unknown (\<open>None\<close>). The shape
  rules are the ones sections 4.2 and 4.3 of the specification describe: a convolution
  of kernel width \<open>k\<close> over \<open>L\<close> positions leaves \<open>L - k + 1\<close> positions, pooling with
  window \<open>p\<close> (stride \<open>p\<close>) leaves \<open>(L - p) div p + 1\<close>, flattening multiplies the
  remaining dimensions, concatenation adds the widths along its axis, a recurrent layer
  in return-full-sequence mode yields its units at every position, and a reduction over
  an axis removes that axis. Only the failures listed in the rules are modelled; they
  are failures of the framework as well.
\<close>

type_synonym shape = "int option list"

type_synonym matrix = "real list list"

datatype backend_fn = K_reverse int | K_max int | K_mean int

datatype layer =
    Embedding int int "matrix option" bool int
  | Conv1D int int string
  | MaxPooling1D int
  | AveragePooling1D int
  | Flatten
  | Dropout real
  | Dense int "int option" string
  | LSTM int bool bool
  | Lambda backend_fn

text \<open>
  The arguments are, in order: \<open>Embedding input_dim output_dim weights trainable
  input_length\<close>; \<open>Conv1D filters kernel_size activation\<close>; \<open>MaxPooling1D pool_size\<close>;
  \<open>Dropout rate\<close>; \<open>Dense units input_dim activation\<close>;
  \<open>LSTM units return_sequences go_backwards\<close>.
\<close>

datatype tensor =
    Input shape string
  | Apply layer tensor shape
  | Concatenate "tensor list" int shape

fun tshape :: "tensor \<Rightarrow> shape" where
  "tshape (Input s dtype) = s"
| "tshape (Apply l t s) = s"
| "tshape (Concatenate ts axis s) = s"

text \<open>
  Two points on which releases of the framework differ are parameters: which rates the
  \<open>Dropout\<close> constructor accepts (older releases clamp any rate, newer ones raise
  outside \<open>[0, 1]\<close>), and how many tensors \<open>concatenate\<close> needs at least.
\<close>

record framework =
  dropout_rate_ok :: "real \<Rightarrow> bool"
  concat_min_inputs :: nat

definition Dropout_init :: "framework \<Rightarrow> real \<Rightarrow> error + layer" where
  "Dropout_init fw rate = (if dropout_rate_ok fw rate then Inr (Dropout rate) else Inl FrameworkError)"

fun embedding_shape :: "int \<Rightarrow> int \<Rightarrow> shape \<Rightarrow> error + shape" where
  "embedding_shape output_dim input_length [b, l] =
     (if l = None \<or> l = Some input_length then Inr [b, Some input_length, Some output_dim]
      else Inl FrameworkError)"
| "embedding_shape output_dim input_length s = Inl FrameworkError"

fun conv1d_shape :: "int \<Rightarrow> int \<Rightarrow> shape \<Rightarrow> error + shape" where
  "conv1d_shape filters kernel_size [b, Some L, c] =
     (if 0 < kernel_size \<and> kernel_size \<le> L then Inr [b, Some (L - kernel_size + 1), Some filters]
      else Inl FrameworkError)"
| "conv1d_shape filters kernel_size s = Inl FrameworkError"

fun pooling1d_shape :: "int \<Rightarrow> shape \<Rightarrow> error + shape" where
  "pooling1d_shape pool_size [b, Some L, c] =
     (if 0 < pool_size \<and> pool_size \<le> L then Inr [b, Some ((L - pool_size) div pool_size + 1), c]
      else Inl FrameworkError)"
| "pooling1d_shape pool_size s = Inl FrameworkError"

fun flatten_shape :: "shape \<Rightarrow> error + shape" where
  "flatten_shape (b # d # ds) =
     (if list_all (\<lambda>x. x \<noteq> None) (d # ds) then Inr [b, Some (prod_list (map the (d # ds)))]
      else Inl FrameworkError)"
| "flatten_shape s = Inl FrameworkError"

definition dense_shape :: "int \<Rightarrow> shape \<Rightarrow> error + shape" where
  "dense_shape units s =
     (if 2 \<le> length s \<and> last s \<noteq> None then Inr (butlast s @ [Some units]) else Inl FrameworkError)"

fun lstm_shape :: "int \<Rightarrow> bool \<Rightarrow> shape \<Rightarrow> error + shape" where
  "lstm_shape units return_sequences [b, l, Some d] =
     Inr (if return_sequences then [b, l, Some units] else [b, Some units])"
| "lstm_shape units return_sequences s = Inl FrameworkError"

definition reduce_shape :: "int \<Rightarrow> shape \<Rightarrow> error + shape" where
  "reduce_shape axis s =
     (if 0 \<le> axis \<and> nat axis < length s then Inr (take (nat axis) s @ drop (Suc (nat axis)) s)
      else Inl FrameworkError)"

fun lambda_shape :: "backend_fn \<Rightarrow> shape \<Rightarrow> error + shape" where
  "lambda_shape (K_reverse axes) s =
     (if 0 \<le> axes \<and> nat axes < length s then Inr s else Inl FrameworkError)"
| "lambda_shape (K_max axis) s = reduce_shape axis s"
| "lambda_shape (K_mean axis) s = reduce_shape axis s"

fun compute_output_shape :: "layer \<Rightarrow> shape \<Rightarrow> error + shape" where
  "compute_output_shape (Embedding input_dim output_dim weights trainable input_length) s =
     embedding_shape output_dim input_length s"
| "compute_output_shape (Conv1D filters kernel_size activation) s = conv1d_shape filters kernel_size s"
| "compute_output_shape (MaxPooling1D pool_size) s = pooling1d_shape pool_size s"
| "compute_output_shape (AveragePooling1D pool_size) s = pooling1d_shape pool_size s"
| "compute_output_shape Flatten s = flatten_shape s"
| "compute_output_shape (Dropout rate) s = Inr s"
| "compute_output_shape (Dense units input_dim activation) s = dense_shape units s"
| "compute_output_shape (LSTM units return_sequences go_backwards) s = lstm_shape units return_sequences s"
| "compute_output_shape (Lambda f) s = lambda_shape f s"

text \<open>Calling a layer on a symbolic tensor, \<open>layer(x)\<close>: infer the shape, extend the graph.\<close>

definition call_layer :: "layer \<Rightarrow> tensor \<Rightarrow> error + tensor" where
  "call_layer l x = bindE (compute_output_shape l (tshape x)) (\<lambda>s. Inr (Apply l x s))"

text \<open>
  \<open>concatenate(tensors, axis)\<close>: the shapes must agree off the axis; the widths along
  the axis are added (the result is unknown there when one of them is).
\<close>

definition concat_dim :: "shape list \<Rightarrow> nat \<Rightarrow> int option" where
  "concat_dim shapes ax =
     (if list_all (\<lambda>s. s ! ax \<noteq> None) shapes then Some (sum_list (map (\<lambda>s. the (s ! ax)) shapes))
      else None)"

definition concatenate :: "framework \<Rightarrow> tensor list \<Rightarrow> int \<Rightarrow> error + tensor" where
  "concatenate fw ts axis =
     (case map tshape ts of
        [] \<Rightarrow> Inl FrameworkError
      | s0 # ss \<Rightarrow>
          if length ts < concat_min_inputs fw \<or> axis < 0 \<or> length s0 \<le> nat axis
             \<or> \<not> list_all (\<lambda>s. length s = length s0 \<and> s[nat axis := None] = s0[nat axis := None]) ss
          then Inl FrameworkError
          else Inr (Concatenate ts axis (s0[nat axis := concat_dim (s0 # ss) (nat axis)])))"

text \<open>
  \<open>keras.Model(input, output)\<close> and its application to an array, of which only the
  shape is kept (the numbers are the framework's). The array must fit the declared
  input shape; the result has the output's shape with the batch size filled in.
\<close>

record keras_Model =
  inputs :: tensor
  outputs :: tensor

definition fits :: "shape \<Rightarrow> int list \<Rightarrow> bool" where
  "fits s xs = (length s = length xs \<and> list_all (\<lambda>(d, x). d = None \<or> d = Some x) (zip s xs))"

definition Model_call :: "keras_Model \<Rightarrow> int list \<Rightarrow> error + int list" where
  "Model_call m xs =
     (case xs of
        [] \<Rightarrow> Inl FrameworkError
      | batch # rest \<Rightarrow>
          if fits (tshape (inputs m)) xs
          then Inr (map (\<lambda>d. case d of None \<Rightarrow> batch | Some n \<Rightarrow> n) (tshape (outputs m)))
          else Inl FrameworkError)"

section \<open>The embedding factory\<close>

text \<open>
  Modelled from the spec: \<open>init_embedding_layer\<close> is defined in
  \<open>keras_text_cls.model.utils\<close>, which is not among the sources. Section 4.1 of the
  specification: with a matrix, vocabulary size and dimension are inferred from it and
  its entries are the initial, optionally frozen, weights; without one, a fresh trainable
  table of size (vocab_size, embedding_dim) is created; the factory fails if the matrix
  is absent and vocab_size is not provided, or if trainable is False while the matrix is
  absent.
\<close>

definition init_embedding_layer ::
  "matrix option \<Rightarrow> int \<Rightarrow> int option \<Rightarrow> bool \<Rightarrow> int \<Rightarrow> error + layer" where
  "init_embedding_layer embedding_matrix embedding_dim embedding_vocab_size embedding_trainable max_seq_len =
     (case embedding_matrix of
        None \<Rightarrow>
          (case embedding_vocab_size of
             None \<Rightarrow> Inl ConfigurationError
           | Some vocab_size \<Rightarrow>
               if \<not> embedding_trainable then Inl ConfigurationError
               else Inr (Embedding vocab_size embedding_dim None True max_seq_len))
      | Some m \<Rightarrow>
          Inr (Embedding (int (length m)) (case m of [] \<Rightarrow> 0 | row # rows \<Rightarrow> int (length row))
                 (Some m) embedding_trainable max_seq_len))"

section \<open>Constructor arguments and model objects\<close>

text \<open>
  The keyword arguments both constructors share, and the ones each adds. Python integers
  are unbounded (\<open>int\<close>); \<open>None\<close> is \<open>None\<close>; the dropout rate is a number compared
  with \<open>0\<close> only, taken as a real.
\<close>

record args =
  num_classes :: int
  embedding_dim :: int
  embedding_matrix :: "matrix option"
  embedding_trainable :: bool
  embedding_vocab_size :: "int option"
  pooling_strategy :: string
  max_seq_len :: int
  num_hidden_units :: "int list"
  hidden_activation :: string
  dropout :: real
  multi_label :: bool

record TextCNN_args = args +
  num_filters :: int
  filter_sizes :: "int list"

record TextRCNN_args = args +
  rnn_hidden_units :: int
  conv_hidden_units :: int

text \<open>
  The attributes the constructors assign on \<open>self\<close>, under the name \<open>self_\<close>\<open>attribute\<close>.
  \<open>embedding_vocab_size\<close> is never stored, and \<open>TextRCNN\<close> does not store
  \<open>conv_hidden_units\<close>.

  Modelled from the spec: \<open>BaseModel\<close> is defined in \<open>keras_text_cls.model\<close>, which is
  not among the sources; section 2 of the specification describes it as a name and an
  abstract call contract, so its constructor is taken to keep the name it is given.
\<close>

record BaseModel =
  self_name :: string
  self_num_classes :: int
  self_embedding_dim :: int
  self_embedding_matrix :: "matrix option"
  self_embedding_trainable :: bool
  self_pooling_strategy :: string
  self_max_seq_len :: int
  self_num_hidden_units :: "int list"
  self_hidden_activation :: string
  self_dropout :: real
  self_multi_label :: bool
  self_model :: keras_Model

record TextCNN = BaseModel +
  self_num_filters :: int
  self_filter_sizes :: "int list"

record TextRCNN = BaseModel +
  self_rnn_hidden_units :: int

section \<open>The code both constructors share\<close>

text \<open>
  The hidden-layer loop, identical in both constructors. Its state is the pair
  (\<open>layer_hiddens\<close>, \<open>prev_input_dim\<close>); one round appends a \<open>Dense\<close> layer, then a
  \<open>Dropout\<close> layer if \<open>dropout > 0\<close>.
\<close>

fun layer_hiddens_step ::
  "framework \<Rightarrow> string \<Rightarrow> real \<Rightarrow> layer list \<times> int \<Rightarrow> int \<Rightarrow> error + layer list \<times> int" where
  "layer_hiddens_step fw activation rate (layer_hiddens, prev_input_dim) n =
     (let layer_hiddens = layer_hiddens @ [Dense n (Some prev_input_dim) activation] in
      if rate > 0
      then bindE (Dropout_init fw rate) (\<lambda>d. Inr (layer_hiddens @ [d], n))
      else Inr (layer_hiddens, n))"

definition layer_hiddens_loop :: "framework \<Rightarrow> 'a args_scheme \<Rightarrow> error + layer list" where
  "layer_hiddens_loop fw a =
     bindE (foldE (layer_hiddens_step fw (hidden_activation a) (dropout a))
              ([], embedding_dim a) (num_hidden_units a))
       (\<lambda>(layer_hiddens, prev_input_dim). Inr layer_hiddens)"

definition output_activation :: "'a args_scheme \<Rightarrow> string" where
  "output_activation a = (if multi_label a then ''sigmoid'' else ''softmax'')"

text \<open>\<open>for hidden in layer_hiddens: x = hidden(x)\<close>\<close>

definition apply_hiddens :: "layer list \<Rightarrow> tensor \<Rightarrow> error + tensor" where
  "apply_hiddens layer_hiddens x = foldE (\<lambda>x hidden. call_layer hidden x) x layer_hiddens"

section \<open>TextCNN\<close>

text \<open>The body of the loop over \<open>layer_convs\<close>: convolution, pooling, flattening of \<open>x\<close>.\<close>

fun conv_branch :: "tensor \<Rightarrow> layer \<times> layer \<times> layer \<Rightarrow> error + tensor" where
  "conv_branch x (l_conv, l_pool, l_flatten) =
     bindE (call_layer l_conv x) (\<lambda>conv_f.
     bindE (call_layer l_pool conv_f) (\<lambda>conv_f.
     call_layer l_flatten conv_f))"

text \<open>
  \<open>TextCNN.__init__\<close>. \<open>layer_dropout\<close> is bound only when \<open>dropout > 0\<close>, and used only
  then.
\<close>

definition TextCNN_init :: "framework \<Rightarrow> TextCNN_args \<Rightarrow> error + TextCNN" where
  "TextCNN_init fw a =
     (let layer_input = Input [None, Some (max_seq_len a)] ''int32'' in
      bindE (init_embedding_layer (embedding_matrix a) (embedding_dim a) (embedding_vocab_size a)
               (embedding_trainable a) (max_seq_len a)) (\<lambda>layer_embedding.
      let layer_convs = map (\<lambda>fsz. (Conv1D (num_filters a) fsz ''relu'',
                                     MaxPooling1D (max_seq_len a - fsz + 1),
                                     Flatten)) (filter_sizes a) in
      bindE (if dropout a > 0 then bindE (Dropout_init fw (dropout a)) (\<lambda>d. Inr (Some d))
             else Inr None) (\<lambda>layer_dropout.
      bindE (layer_hiddens_loop fw a) (\<lambda>layer_hiddens.
      let layer_output = Dense (num_classes a) None (output_activation a) in
      bindE (call_layer layer_embedding layer_input) (\<lambda>x.
      bindE (mapE (conv_branch x) layer_convs) (\<lambda>convs.
      bindE (concatenate fw convs 1) (\<lambda>x.
      bindE (case layer_dropout of Some d \<Rightarrow> call_layer d x | None \<Rightarrow> Inr x) (\<lambda>x.
      bindE (apply_hiddens layer_hiddens x) (\<lambda>x.
      bindE (call_layer layer_output x) (\<lambda>output.
      Inr \<lparr>self_name = ''TextCNN'',
           self_num_classes = num_classes a,
           self_embedding_dim = embedding_dim a,
           self_embedding_matrix = embedding_matrix a,
           self_embedding_trainable = embedding_trainable a,
           self_pooling_strategy = pooling_strategy a,
           self_max_seq_len = max_seq_len a,
           self_num_hidden_units = num_hidden_units a,
           self_hidden_activation = hidden_activation a,
           self_dropout = dropout a,
           self_multi_label = multi_label a,
           self_model = \<lparr>inputs = layer_input, outputs = output\<rparr>,
           self_num_filters = num_filters a,
           self_filter_sizes = filter_sizes a\<rparr>))))))))))"

text \<open>
  \<open>TextCNN.call\<close>: the assertion on the rank, then the framework. The method assigns
  nothing; the object is returned next to the result.
\<close>

definition TextCNN_call :: "TextCNN \<Rightarrow> int list \<Rightarrow> (error + int list) \<times> TextCNN" where
  "TextCNN_call self inputs_shape =
     (if length inputs_shape \<noteq> 2 then (Inl AssertionError, self)
      else (Model_call (self_model self) inputs_shape, self))"

section \<open>TextRCNN\<close>

text \<open>\<open>TextRCNN.__init__\<close>.\<close>

definition TextRCNN_init :: "framework \<Rightarrow> TextRCNN_args \<Rightarrow> error + TextRCNN" where
  "TextRCNN_init fw a =
     (let layer_input = Input [None, Some (max_seq_len a)] ''int32'' in
      bindE (init_embedding_layer (embedding_matrix a) (embedding_dim a) (embedding_vocab_size a)
               (embedding_trainable a) (max_seq_len a)) (\<lambda>layer_embedding.
      let layer_lstm_forward = LSTM (rnn_hidden_units a) True False;
          layer_lstm_backward = LSTM (rnn_hidden_units a) True True;
          layer_reverse = Lambda (K_reverse 1);
          layer_conv = Conv1D (conv_hidden_units a) 1 ''tanh'';
          layer_max_pool = Lambda (K_max 1) in
      bindE (layer_hiddens_loop fw a) (\<lambda>layer_hiddens.
      let layer_output = Dense (num_classes a) None (output_activation a) in
      bindE (call_layer layer_embedding layer_input) (\<lambda>x.
      bindE (call_layer layer_lstm_forward x) (\<lambda>forward.
      bindE (call_layer layer_lstm_backward x) (\<lambda>backward.
      bindE (call_layer layer_reverse backward) (\<lambda>backward.
      bindE (concatenate fw [forward, x, backward] 2) (\<lambda>together.
      bindE (call_layer layer_conv together) (\<lambda>semantic.
      bindE (call_layer layer_max_pool semantic) (\<lambda>x.
      bindE (apply_hiddens layer_hiddens x) (\<lambda>x.
      bindE (call_layer layer_output x) (\<lambda>output.
      Inr \<lparr>self_name = ''TextRCNN'',
           self_num_classes = num_classes a,
           self_embedding_dim = embedding_dim a,
           self_embedding_matrix = embedding_matrix a,
           self_embedding_trainable = embedding_trainable a,
           self_pooling_strategy = pooling_strategy a,
           self_max_seq_len = max_seq_len a,
           self_num_hidden_units = num_hidden_units a,
           self_hidden_activation = hidden_activation a,
           self_dropout = dropout a,
           self_multi_label = multi_label a,
           self_model = \<lparr>inputs = layer_input, outputs = output\<rparr>,
           self_rnn_hidden_units = rnn_hidden_units a\<rparr>))))))))))))"

text \<open>\<open>TextRCNN.call\<close>, the same two lines.\<close>

definition TextRCNN_call :: "TextRCNN \<Rightarrow> int list \<Rightarrow> (error + int list) \<times> TextRCNN" where
  "TextRCNN_call self inputs_shape =
     (if length inputs_shape \<noteq> 2 then (Inl AssertionError, self)
      else (Model_call (self_model self) inputs_shape, self))"

section \<open>Reading a built graph\<close>

text \<open>
  The classifier head is the chain of \<open>Dense\<close> and \<open>Dropout\<close> layers on top of the
  features; \<open>classifier_input\<close> walks down that chain to the tensor it is fed with.
\<close>

fun is_dense_or_dropout :: "layer \<Rightarrow> bool" where
  "is_dense_or_dropout (Dense units input_dim activation) = True"
| "is_dense_or_dropout (Dropout rate) = True"
| "is_dense_or_dropout l = False"

fun classifier_input :: "tensor \<Rightarrow> tensor" where
  "classifier_input (Apply (Dense units input_dim activation) t s) = classifier_input t"
| "classifier_input (Apply (Dropout rate) t s) = classifier_input t"
| "classifier_input t = t"

text \<open>The pooling operations of a graph, mean-style ones included, from the output down.\<close>

fun is_pooling :: "layer \<Rightarrow> bool" where
  "is_pooling (MaxPooling1D pool_size) = True"
| "is_pooling (AveragePooling1D pool_size) = True"
| "is_pooling (Lambda (K_max axis)) = True"
| "is_pooling (Lambda (K_mean axis)) = True"
| "is_pooling l = False"

fun is_max_pooling :: "layer \<Rightarrow> bool" where
  "is_max_pooling (MaxPooling1D pool_size) = True"
| "is_max_pooling (Lambda (K_max axis)) = True"
| "is_max_pooling l = False"

fun pooling_ops :: "tensor \<Rightarrow> layer list" where
  "pooling_ops (Input s dtype) = []"
| "pooling_ops (Apply l t s) = (if is_pooling l then [l] else []) @ pooling_ops t"
| "pooling_ops (Concatenate ts axis s) = concat (map pooling_ops ts)"



section \<open>The architectures as the specification words them\<close>

text \<open>
  Sections 4.1 to 4.3 name the width of the vectors the embedding layer produces
  \<open>embedding_dim\<close>: it is the argument \<open>embedding_dim\<close> when the table is created
  afresh, and is inferred from the matrix (the length of its rows) when one is supplied.
\<close>

definition embedding_width :: "'a args_scheme \<Rightarrow> int" where
  "embedding_width a =
     (case embedding_matrix a of
        None \<Rightarrow> embedding_dim a
      | Some m \<Rightarrow> (case m of [] \<Rightarrow> 0 | row # rows \<Rightarrow> int (length row)))"

text \<open>The embedded input, \<open>x = layer_embedding(input)\<close>, of width \<open>d\<close>.\<close>

definition embedded_input :: "layer \<Rightarrow> int \<Rightarrow> int \<Rightarrow> tensor" where
  "embedded_input layer_embedding seq_len d =
     Apply layer_embedding (Input [None, Some seq_len] ''int32'') [None, Some seq_len, Some d]"

text \<open>
  Section 4.2, step 3: for a window size \<open>w\<close>, a convolution with \<open>filters\<close> output
  channels, kernel width \<open>w\<close> and ReLU activation, a max-pool over the entire remaining
  sequence length \<open>seq_len - w + 1\<close>, and a flatten to a vector of length \<open>filters\<close>.
\<close>

definition spec_conv_branch :: "int \<Rightarrow> int \<Rightarrow> tensor \<Rightarrow> int \<Rightarrow> tensor" where
  "spec_conv_branch filters seq_len x w =
     Apply Flatten
       (Apply (MaxPooling1D (seq_len - w + 1))
          (Apply (Conv1D filters w ''relu'') x [None, Some (seq_len - w + 1), Some filters])
          [None, Some 1, Some filters])
       [None, Some filters]"

text \<open>
  Section 4.3, steps 2 to 4: a forward and a backward recurrent layer of \<open>units\<close> states
  per position, the backward output reversed along the time axis, and the per-position
  concatenation [forward state, embedding of width \<open>d\<close>, backward state]. Steps 5 and 6:
  the kernel-width-1 convolution to \<open>conv_units\<close> channels with tanh, and the maximum
  over the sequence axis.
\<close>

definition spec_together :: "int \<Rightarrow> int \<Rightarrow> int \<Rightarrow> tensor \<Rightarrow> tensor" where
  "spec_together units seq_len d x =
     Concatenate
       [Apply (LSTM units True False) x [None, Some seq_len, Some units],
        x,
        Apply (Lambda (K_reverse 1))
          (Apply (LSTM units True True) x [None, Some seq_len, Some units])
          [None, Some seq_len, Some units]]
       2 [None, Some seq_len, Some (units + d + units)]"

definition spec_pooled :: "int \<Rightarrow> int \<Rightarrow> int \<Rightarrow> int \<Rightarrow> tensor \<Rightarrow> tensor" where
  "spec_pooled units conv_units seq_len d x =
     Apply (Lambda (K_max 1))
       (Apply (Conv1D conv_units 1 ''tanh'') (spec_together units seq_len d x)
          [None, Some seq_len, Some conv_units])
       [None, Some conv_units]"

section \<open>Two concrete scenarios\<close>

text \<open>
  A framework that is strict on both points: \<open>Dropout\<close> raises outside \<open>[0, 1]\<close>, and
  \<open>concatenate\<close> wants two tensors.
\<close>

definition strict_keras :: framework where
  "strict_keras = \<lparr>dropout_rate_ok = (\<lambda>rate. 0 \<le> rate \<and> rate \<le> 1), concat_min_inputs = 2\<rparr>"

text \<open>
  The scenarios of section 8: three classes over sequences of length 10 with window
  sizes 2 and 3 and four filters; recurrent and convolution widths 8 and 6 over sequences
  of length 5. The embedding table is built from a vocabulary of 100.
\<close>

definition cnn_example :: TextCNN_args where
  "cnn_example =
     \<lparr>num_classes = 3, embedding_dim = 8, embedding_matrix = None, embedding_trainable = True,
      embedding_vocab_size = Some 100, pooling_strategy = ''REDUCE_MAX'', max_seq_len = 10,
      num_hidden_units = [5], hidden_activation = ''relu'', dropout = 1 / 2, multi_label = True,
      num_filters = 4, filter_sizes = [2, 3]\<rparr>"

definition cnn_example_x :: tensor where
  "cnn_example_x =
     Apply (Embedding 100 8 None True 10) (Input [None, Some 10] ''int32'') [None, Some 10, Some 8]"

definition cnn_example_convs :: tensor where
  "cnn_example_convs =
     Concatenate [spec_conv_branch 4 10 cnn_example_x 2, spec_conv_branch 4 10 cnn_example_x 3]
       1 [None, Some 8]"

definition cnn_example_self :: TextCNN where
  "cnn_example_self =
     \<lparr>self_name = ''TextCNN'', self_num_classes = 3, self_embedding_dim = 8,
      self_embedding_matrix = None, self_embedding_trainable = True,
      self_pooling_strategy = ''REDUCE_MAX'', self_max_seq_len = 10,
      self_num_hidden_units = [5], self_hidden_activation = ''relu'',
      self_dropout = 1 / 2, self_multi_label = True,
      self_model =
        \<lparr>inputs = Input [None, Some 10] ''int32'',
         outputs =
           Apply (Dense 3 None ''sigmoid'')
             (Apply (Dropout (1 / 2))
                (Apply (Dense 5 (Some 8) ''relu'')
                   (Apply (Dropout (1 / 2)) cnn_example_convs [None, Some 8])
                   [None, Some 5])
                [None, Some 5])
             [None, Some 3]\<rparr>,
      self_num_filters = 4, self_filter_sizes = [2, 3]\<rparr>"

definition rcnn_example :: TextRCNN_args where
  "rcnn_example =
     \<lparr>num_classes = 3, embedding_dim = 8, embedding_matrix = None, embedding_trainable = True,
      embedding_vocab_size = Some 100, pooling_strategy = ''REDUCE_MAX'', max_seq_len = 5,
      num_hidden_units = [7], hidden_activation = ''relu'', dropout = 1 / 2, multi_label = False,
      rnn_hidden_units = 8, conv_hidden_units = 6\<rparr>"

definition rcnn_example_x :: tensor where
  "rcnn_example_x =
     Apply (Embedding 100 8 None True 5) (Input [None, Some 5] ''int32'') [None, Some 5, Some 8]"

definition rcnn_example_self :: TextRCNN where
  "rcnn_example_self =
     \<lparr>self_name = ''TextRCNN'', self_num_classes = 3, self_embedding_dim = 8,
      self_embedding_matrix = None, self_embedding_trainable = True,
      self_pooling_strategy = ''REDUCE_MAX'', self_max_seq_len = 5,
      self_num_hidden_units = [7], self_hidden_activation = ''relu'',
      self_dropout = 1 / 2, self_multi_label = False,
      self_model =
        \<lparr>inputs = Input [None, Some 5] ''int32'',
         outputs =
           Apply (Dense 3 None ''softmax'')
             (Apply (Dropout (1 / 2))
                (Apply (Dense 7 (Some 8) ''relu'') (spec_pooled 8 6 5 8 rcnn_example_x)
                   [None, Some 7])
                [None, Some 7])
             [None, Some 3]\<rparr>,
      self_rnn_hidden_units = 8\<rparr>"



section \<open>Sequencing, loops and shapes\<close>

lemma bindE_simps [simp]:
  "bindE (Inl e) f = Inl e"
  "bindE (Inr v) f = f v"
  by (simp_all add: bindE_def)

lemma bindE_eq_Inr: "bindE m f = Inr y \<longleftrightarrow> (\<exists>v. m = Inr v \<and> f v = Inr y)"
  by (cases m) simp_all

lemma map_sum_bindE: "map_sum id g (bindE m f) = bindE m (\<lambda>v. map_sum id g (f v))"
  by (cases m) simp_all

lemma call_layer_eq_Inr:
  "call_layer l x = Inr y \<longleftrightarrow> (\<exists>s. compute_output_shape l (tshape x) = Inr s \<and> y = Apply l x s)"
  by (auto simp: call_layer_def bindE_eq_Inr)

lemma mapE_member:
  "mapE f xs = Inr ys \<Longrightarrow> x \<in> set xs \<Longrightarrow> \<exists>y. f x = Inr y"
  by (induction xs arbitrary: ys) (auto simp: bindE_eq_Inr)

lemma conv_branch_spec:
  assumes "tshape x = [None, Some L, c]"
    and "conv_branch x (Conv1D filters w ''relu'', MaxPooling1D (L - w + 1), Flatten) = Inr y"
  shows "y = spec_conv_branch filters L x w" and "0 < w" and "w \<le> L"
  using assms
  by (auto simp: bindE_eq_Inr call_layer_eq_Inr spec_conv_branch_def split: if_splits)

lemma mapE_conv_branches:
  assumes "tshape x = [None, Some L, c]"
    and "mapE (conv_branch x)
           (map (\<lambda>fsz. (Conv1D filters fsz ''relu'', MaxPooling1D (L - fsz + 1), Flatten)) ws) = Inr convs"
  shows "convs = map (spec_conv_branch filters L x) ws"
  using assms(2)
proof (induction ws arbitrary: convs)
  case Nil
  then show ?case by simp
next
  case (Cons w ws)
  from Cons.prems obtain y ys where
    y: "conv_branch x (Conv1D filters w ''relu'', MaxPooling1D (L - w + 1), Flatten) = Inr y"
    and ys: "mapE (conv_branch x)
           (map (\<lambda>fsz. (Conv1D filters fsz ''relu'', MaxPooling1D (L - fsz + 1), Flatten)) ws) = Inr ys"
    and eq: "convs = y # ys"
    by (auto simp: bindE_eq_Inr)
  from conv_branch_spec(1) [OF assms(1) y] Cons.IH [OF ys] eq show ?case by simp
qed

lemma hiddens_step_dense_or_dropout:
  "foldE (layer_hiddens_step fw act r) (acc, p) ns = Inr (ls, q) \<Longrightarrow>
   list_all is_dense_or_dropout acc \<Longrightarrow> list_all is_dense_or_dropout ls"
proof (induction ns arbitrary: acc p)
  case Nil
  then show ?case by simp
next
  case (Cons n ns)
  then show ?case
    by (auto simp: bindE_eq_Inr Dropout_init_def Let_def split: if_splits)
qed

lemma layer_hiddens_loop_dense_or_dropout:
  "layer_hiddens_loop fw a = Inr ls \<Longrightarrow> list_all is_dense_or_dropout ls"
  by (auto simp: layer_hiddens_loop_def bindE_eq_Inr dest: hiddens_step_dense_or_dropout)

lemma apply_hiddens_classifier_input:
  "apply_hiddens ls x = Inr y \<Longrightarrow> list_all is_dense_or_dropout ls \<Longrightarrow>
   classifier_input y = classifier_input x"
  unfolding apply_hiddens_def
proof (induction ls arbitrary: x)
  case Nil
  then show ?case by simp
next
  case (Cons l ls)
  then obtain x' where x': "call_layer l x = Inr x'" and rest: "foldE (\<lambda>x hidden. call_layer hidden x) x' ls = Inr y"
    by (auto simp: bindE_eq_Inr)
  from Cons.prems have l: "is_dense_or_dropout l" and ls: "list_all is_dense_or_dropout ls" by simp_all
  from x' l have "classifier_input x' = classifier_input x"
    by (cases l) (auto simp: call_layer_eq_Inr)
  with Cons.IH [OF rest ls] show ?case by simp
qed

lemma apply_hiddens_rank2:
  "apply_hiddens ls x = Inr y \<Longrightarrow> list_all is_dense_or_dropout ls \<Longrightarrow>
   \<exists>k. tshape x = [None, Some k] \<Longrightarrow> \<exists>k. tshape y = [None, Some k]"
  unfolding apply_hiddens_def
proof (induction ls arbitrary: x)
  case Nil
  then show ?case by simp
next
  case (Cons l ls)
  then obtain x' where x': "call_layer l x = Inr x'" and rest: "foldE (\<lambda>x hidden. call_layer hidden x) x' ls = Inr y"
    by (auto simp: bindE_eq_Inr)
  from Cons.prems have l: "is_dense_or_dropout l" and ls: "list_all is_dense_or_dropout ls" by simp_all
  from x' l Cons.prems(3) have "\<exists>k. tshape x' = [None, Some k]"
    by (cases l) (auto simp: call_layer_eq_Inr dense_shape_def split: if_splits)
  with Cons.IH [OF rest ls] show ?case by simp
qed


lemma call_layer_Dropout: "call_layer (Dropout r) x = Inr (Apply (Dropout r) x (tshape x))"
  by (simp add: call_layer_def)

lemma init_embedding_layer_Inr:
  assumes "init_embedding_layer (embedding_matrix a) (embedding_dim a) (embedding_vocab_size a)
             (embedding_trainable a) (max_seq_len a) = Inr emb"
  shows "\<exists>v w t. emb = Embedding v (embedding_width a) w t (max_seq_len a)"
  using assms
  by (auto simp: init_embedding_layer_def embedding_width_def split: option.splits if_splits)

lemma tshape_spec_conv_branch: "tshape (spec_conv_branch filters L x w) = [None, Some filters]"
  by (simp add: spec_conv_branch_def)

lemma sum_list_const: "sum_list (map (\<lambda>x. c) xs) = c * int (length xs)"
  by (induction xs) (simp_all add: algebra_simps)

lemma concatenate_branches:
  assumes "concatenate fw (map (spec_conv_branch filters L x) ws) 1 = Inr y"
  shows "y = Concatenate (map (spec_conv_branch filters L x) ws) 1 [None, Some (filters * int (length ws))]"
proof (cases ws)
  case Nil
  with assms show ?thesis by (simp add: concatenate_def)
next
  case (Cons w ws')
  have dim: "concat_dim (map (\<lambda>w. [None, Some filters]) ws) (Suc 0) = Some (filters * int (length ws))"
    by (simp add: concat_dim_def list_all_iff o_def sum_list_const)
  from assms Cons dim show ?thesis
    by (auto simp: concatenate_def o_def tshape_spec_conv_branch split: if_splits)
qed

lemmas eval_defs = strict_keras_def TextCNN_init_def TextRCNN_init_def bindE_def
  init_embedding_layer_def Dropout_init_def layer_hiddens_loop_def call_layer_def concatenate_def
  concat_dim_def apply_hiddens_def dense_shape_def reduce_shape_def output_activation_def Let_def
  spec_conv_branch_def spec_together_def spec_pooled_def

lemma cnn_example_init: "TextCNN_init strict_keras cnn_example = Inr cnn_example_self"
  by (simp add: eval_defs cnn_example_def cnn_example_self_def cnn_example_convs_def cnn_example_x_def)

lemma rcnn_example_init: "TextRCNN_init strict_keras rcnn_example = Inr rcnn_example_self"
  by (simp add: eval_defs rcnn_example_def rcnn_example_self_def rcnn_example_x_def)

section \<open>The stages of the constructors\<close>

lemma TextCNN_stages:
  assumes "TextCNN_init fw a = Inr self"
  shows "\<exists>emb layer_hiddens x convs x1 x2 x3 outp.
      init_embedding_layer (embedding_matrix a) (embedding_dim a) (embedding_vocab_size a)
            (embedding_trainable a) (max_seq_len a) = Inr emb
    \<and> layer_hiddens_loop fw a = Inr layer_hiddens
    \<and> call_layer emb (Input [None, Some (max_seq_len a)] ''int32'') = Inr x
    \<and> mapE (conv_branch x) (map (\<lambda>fsz. (Conv1D (num_filters a) fsz ''relu'', MaxPooling1D (max_seq_len a - fsz + 1), Flatten)) (filter_sizes a)) = Inr convs
    \<and> concatenate fw convs 1 = Inr x1
    \<and> x2 = (if 0 < dropout a then Apply (Dropout (dropout a)) x1 (tshape x1) else x1)
    \<and> apply_hiddens layer_hiddens x2 = Inr x3
    \<and> call_layer (Dense (num_classes a) None (output_activation a)) x3 = Inr outp
    \<and> self_model self = \<lparr>inputs = Input [None, Some (max_seq_len a)] ''int32'', outputs = outp\<rparr>"
proof (cases "0 < dropout a")
  case True
  with assms show ?thesis
    unfolding TextCNN_init_def Let_def
    by (auto simp: bindE_eq_Inr Dropout_init_def call_layer_Dropout split: if_splits)
next
  case False
  with assms show ?thesis
    unfolding TextCNN_init_def Let_def
    by (auto simp: bindE_eq_Inr)
qed


lemma TextCNN_structure:
  assumes "TextCNN_init fw a = Inr self"
  shows "\<exists>emb y.
    init_embedding_layer (embedding_matrix a) (embedding_dim a) (embedding_vocab_size a)
      (embedding_trainable a) (max_seq_len a) = Inr emb \<and>
    inputs (self_model self) = Input [None, Some (max_seq_len a)] ''int32'' \<and>
    outputs (self_model self) =
      Apply (Dense (num_classes a) None (output_activation a)) y [None, Some (num_classes a)] \<and>
    classifier_input y =
      Concatenate
        (map (spec_conv_branch (num_filters a) (max_seq_len a)
                (embedded_input emb (max_seq_len a) (embedding_width a)))
           (filter_sizes a))
        1 [None, Some (num_filters a * int (length (filter_sizes a)))]"
proof -
  let ?input = "Input [None, Some (max_seq_len a)] ''int32''"
  let ?mk = "\<lambda>fsz. (Conv1D (num_filters a) fsz ''relu'', MaxPooling1D (max_seq_len a - fsz + 1), Flatten)"
  from TextCNN_stages [OF assms] obtain emb layer_hiddens x convs x1 x2 x3 outp where
    emb: "init_embedding_layer (embedding_matrix a) (embedding_dim a) (embedding_vocab_size a)
            (embedding_trainable a) (max_seq_len a) = Inr emb"
    and hid: "layer_hiddens_loop fw a = Inr layer_hiddens"
    and x: "call_layer emb ?input = Inr x"
    and convs: "mapE (conv_branch x) (map ?mk (filter_sizes a)) = Inr convs"
    and x1: "concatenate fw convs 1 = Inr x1"
    and x2: "x2 = (if 0 < dropout a then Apply (Dropout (dropout a)) x1 (tshape x1) else x1)"
    and x3: "apply_hiddens layer_hiddens x2 = Inr x3"
    and out: "call_layer (Dense (num_classes a) None (output_activation a)) x3 = Inr outp"
    and self: "self_model self = \<lparr>inputs = ?input, outputs = outp\<rparr>"
    by (elim exE conjE)
  let ?d = "embedding_width a"
  from init_embedding_layer_Inr [OF emb] obtain v w t where
    emb_eq: "emb = Embedding v ?d w t (max_seq_len a)"
    by (elim exE)
  let ?x = "embedded_input emb (max_seq_len a) ?d"
  have xs: "tshape ?x = [None, Some (max_seq_len a), Some ?d]"
    by (simp add: embedded_input_def)
  from x have x_eq: "x = ?x"
    unfolding emb_eq by (auto simp: call_layer_eq_Inr embedded_input_def)
  have convs_eq: "convs = map (spec_conv_branch (num_filters a) (max_seq_len a) ?x) (filter_sizes a)"
    using convs unfolding x_eq by (rule mapE_conv_branches [OF xs])
  from x1 have x1_eq: "x1 = Concatenate (map (spec_conv_branch (num_filters a) (max_seq_len a) ?x) (filter_sizes a)) 1
      [None, Some (num_filters a * int (length (filter_sizes a)))]"
    unfolding convs_eq by (rule concatenate_branches)
  have x2_ci: "classifier_input x2 = x1"
    unfolding x2 by (simp add: x1_eq)
  have x2_shape: "\<exists>k. tshape x2 = [None, Some k]"
    unfolding x2 by (simp add: x1_eq)
  have dd: "list_all is_dense_or_dropout layer_hiddens"
    using hid by (rule layer_hiddens_loop_dense_or_dropout)
  from apply_hiddens_classifier_input [OF x3 dd] x2_ci have ci: "classifier_input x3 = x1" by simp
  from apply_hiddens_rank2 [OF x3 dd x2_shape] obtain k where k: "tshape x3 = [None, Some k]" by (elim exE)
  from out k have out_eq: "outp = Apply (Dense (num_classes a) None (output_activation a)) x3 [None, Some (num_classes a)]"
    by (auto simp: call_layer_eq_Inr dense_shape_def)
  show ?thesis
    apply (rule exI [of _ emb], rule exI [of _ x3])
    using emb ci self
    unfolding out_eq x1_eq
    by simp
qed


lemma TextRCNN_stages:
  assumes "TextRCNN_init fw a = Inr self"
  shows "\<exists>emb layer_hiddens x forward backward0 backward together semantic x2 x3 outp.
      init_embedding_layer (embedding_matrix a) (embedding_dim a) (embedding_vocab_size a)
            (embedding_trainable a) (max_seq_len a) = Inr emb
    \<and> layer_hiddens_loop fw a = Inr layer_hiddens
    \<and> call_layer emb (Input [None, Some (max_seq_len a)] ''int32'') = Inr x
    \<and> call_layer (LSTM (rnn_hidden_units a) True False) x = Inr forward
    \<and> call_layer (LSTM (rnn_hidden_units a) True True) x = Inr backward0
    \<and> call_layer (Lambda (K_reverse 1)) backward0 = Inr backward
    \<and> concatenate fw [forward, x, backward] 2 = Inr together
    \<and> call_layer (Conv1D (conv_hidden_units a) 1 ''tanh'') together = Inr semantic
    \<and> call_layer (Lambda (K_max 1)) semantic = Inr x2
    \<and> apply_hiddens layer_hiddens x2 = Inr x3
    \<and> call_layer (Dense (num_classes a) None (output_activation a)) x3 = Inr outp
    \<and> self_model self = \<lparr>inputs = Input [None, Some (max_seq_len a)] ''int32'', outputs = outp\<rparr>"
  using assms unfolding TextRCNN_init_def Let_def
  by (auto simp: bindE_eq_Inr)

lemma TextRCNN_structure:
  assumes "TextRCNN_init fw a = Inr self"
  shows "\<exists>emb y.
    init_embedding_layer (embedding_matrix a) (embedding_dim a) (embedding_vocab_size a)
      (embedding_trainable a) (max_seq_len a) = Inr emb \<and>
    inputs (self_model self) = Input [None, Some (max_seq_len a)] ''int32'' \<and>
    outputs (self_model self) =
      Apply (Dense (num_classes a) None (output_activation a)) y [None, Some (num_classes a)] \<and>
    classifier_input y =
      spec_pooled (rnn_hidden_units a) (conv_hidden_units a) (max_seq_len a) (embedding_width a)
        (embedded_input emb (max_seq_len a) (embedding_width a))"
proof -
  let ?input = "Input [None, Some (max_seq_len a)] ''int32''"
  from TextRCNN_stages [OF assms] obtain emb layer_hiddens x forward backward0 backward together semantic x2 x3 outp where
    emb: "init_embedding_layer (embedding_matrix a) (embedding_dim a) (embedding_vocab_size a)
            (embedding_trainable a) (max_seq_len a) = Inr emb"
    and hid: "layer_hiddens_loop fw a = Inr layer_hiddens"
    and x: "call_layer emb ?input = Inr x"
    and fwd: "call_layer (LSTM (rnn_hidden_units a) True False) x = Inr forward"
    and bwd0: "call_layer (LSTM (rnn_hidden_units a) True True) x = Inr backward0"
    and bwd: "call_layer (Lambda (K_reverse 1)) backward0 = Inr backward"
    and tog: "concatenate fw [forward, x, backward] 2 = Inr together"
    and sem: "call_layer (Conv1D (conv_hidden_units a) 1 ''tanh'') together = Inr semantic"
    and x2: "call_layer (Lambda (K_max 1)) semantic = Inr x2"
    and x3: "apply_hiddens layer_hiddens x2 = Inr x3"
    and out: "call_layer (Dense (num_classes a) None (output_activation a)) x3 = Inr outp"
    and self: "self_model self = \<lparr>inputs = ?input, outputs = outp\<rparr>"
    by (elim exE conjE)
  let ?d = "embedding_width a"
  from init_embedding_layer_Inr [OF emb] obtain v w t where
    emb_eq: "emb = Embedding v ?d w t (max_seq_len a)"
    by (elim exE)
  let ?x = "embedded_input emb (max_seq_len a) ?d"
  have xs: "tshape ?x = [None, Some (max_seq_len a), Some ?d]"
    by (simp add: embedded_input_def)
  let ?u = "rnn_hidden_units a"
  from x have x_eq: "x = ?x"
    unfolding emb_eq by (auto simp: call_layer_eq_Inr embedded_input_def)
  from fwd have fwd_eq: "forward = Apply (LSTM ?u True False) ?x [None, Some (max_seq_len a), Some ?u]"
    unfolding x_eq using xs by (auto simp: call_layer_eq_Inr)
  from bwd0 have bwd0_eq: "backward0 = Apply (LSTM ?u True True) ?x [None, Some (max_seq_len a), Some ?u]"
    unfolding x_eq using xs by (auto simp: call_layer_eq_Inr)
  from bwd have bwd_eq: "backward = Apply (Lambda (K_reverse 1)) (Apply (LSTM ?u True True) ?x [None, Some (max_seq_len a), Some ?u])
      [None, Some (max_seq_len a), Some ?u]"
    unfolding bwd0_eq by (auto simp: call_layer_eq_Inr)
  from tog have tog_eq: "together = spec_together ?u (max_seq_len a) ?d ?x"
    unfolding x_eq fwd_eq bwd_eq using xs
    by (auto simp: concatenate_def concat_dim_def spec_together_def split: if_splits)
  from sem have sem_eq: "semantic = Apply (Conv1D (conv_hidden_units a) 1 ''tanh'') (spec_together ?u (max_seq_len a) ?d ?x)
      [None, Some (max_seq_len a), Some (conv_hidden_units a)]"
    unfolding tog_eq by (auto simp: call_layer_eq_Inr spec_together_def split: if_splits)
  from x2 have x2_eq: "x2 = spec_pooled ?u (conv_hidden_units a) (max_seq_len a) ?d ?x"
    unfolding sem_eq by (auto simp: call_layer_eq_Inr spec_pooled_def reduce_shape_def)
  have x2_shape: "\<exists>k. tshape x2 = [None, Some k]"
    unfolding x2_eq by (simp add: spec_pooled_def)
  have dd: "list_all is_dense_or_dropout layer_hiddens"
    using hid by (rule layer_hiddens_loop_dense_or_dropout)
  from apply_hiddens_classifier_input [OF x3 dd] have ci: "classifier_input x3 = x2"
    unfolding x2_eq by (simp add: spec_pooled_def)
  from apply_hiddens_rank2 [OF x3 dd x2_shape] obtain k where k: "tshape x3 = [None, Some k]" by (elim exE)
  from out k have out_eq: "outp = Apply (Dense (num_classes a) None (output_activation a)) x3 [None, Some (num_classes a)]"
    by (auto simp: call_layer_eq_Inr dense_shape_def)
  show ?thesis
    apply (rule exI [of _ emb], rule exI [of _ x3])
    using emb ci self
    unfolding out_eq x2_eq
    by simp
qed

section \<open>The built graphs\<close>


lemma Model_call_fitting:
  assumes "tshape (inputs m) = [None, Some n]" and "tshape (outputs m) = [None, Some k]"
  shows "Model_call m [batch, n] = Inr [batch, k]"
  using assms by (simp add: Model_call_def fits_def)

text \<open>
  C1. Whenever \<open>TextCNN\<close> is constructed, the tensor fed to the classifier head is the
  concatenation along axis 1, in the order of \<open>filter_sizes\<close>, of one branch per window
  size \<open>w\<close>: a convolution of the embedded input with \<open>num_filters\<close> channels, kernel
  width \<open>w\<close> and ReLU, a max-pool of window \<open>max_seq_len - w + 1\<close>, and a flatten. Every
  branch is a vector of length \<open>num_filters\<close>, and the concatenation one of length
  \<open>num_filters\<close> times the number of window sizes.
\<close>

theorem TextCNN_conv_branches:
  assumes "TextCNN_init fw a = Inr self"
  shows "\<exists>emb branches.
    init_embedding_layer (embedding_matrix a) (embedding_dim a) (embedding_vocab_size a)
      (embedding_trainable a) (max_seq_len a) = Inr emb \<and>
    branches = map (spec_conv_branch (num_filters a) (max_seq_len a)
                      (embedded_input emb (max_seq_len a) (embedding_width a))) (filter_sizes a) \<and>
    classifier_input (outputs (self_model self)) =
      Concatenate branches 1 [None, Some (num_filters a * int (length (filter_sizes a)))] \<and>
    map tshape branches = map (\<lambda>w. [None, Some (num_filters a)]) (filter_sizes a)"
proof -
  from TextCNN_structure [OF assms] obtain emb y where
    emb: "init_embedding_layer (embedding_matrix a) (embedding_dim a) (embedding_vocab_size a)
            (embedding_trainable a) (max_seq_len a) = Inr emb"
    and out: "outputs (self_model self) =
            Apply (Dense (num_classes a) None (output_activation a)) y [None, Some (num_classes a)]"
    and y: "classifier_input y =
      Concatenate
        (map (spec_conv_branch (num_filters a) (max_seq_len a)
                (embedded_input emb (max_seq_len a) (embedding_width a))) (filter_sizes a))
        1 [None, Some (num_filters a * int (length (filter_sizes a)))]"
    by (elim exE conjE)
  show ?thesis
    apply (rule exI [of _ emb])
    using emb out y by (simp add: tshape_spec_conv_branch o_def)
qed

theorem TextCNN_conv_branches_witness:
  "TextCNN_init strict_keras cnn_example = Inr cnn_example_self \<and>
   classifier_input (outputs (self_model cnn_example_self)) =
     Concatenate [spec_conv_branch 4 10 cnn_example_x 2, spec_conv_branch 4 10 cnn_example_x 3]
       1 [None, Some 8] \<and>
   map tshape [spec_conv_branch 4 10 cnn_example_x 2, spec_conv_branch 4 10 cnn_example_x 3] =
     [[None, Some 4], [None, Some 4]]"
  using TextCNN_conv_branches [OF cnn_example_init] cnn_example_init
  by (auto simp: cnn_example_def init_embedding_layer_def embedding_width_def embedded_input_def
      cnn_example_x_def)



text \<open>
  C3. Whenever either model is constructed, the last layer of its graph is a dense layer
  of width \<open>num_classes\<close> with activation sigmoid if \<open>multi_label\<close> and softmax
  otherwise, and calling the model on an array of shape (batch, \<open>max_seq_len\<close>) returns
  an array of shape (batch, \<open>num_classes\<close>).
\<close>

theorem output_layer_and_shape:
  "(TextCNN_init fw a = Inr cnn \<longrightarrow>
      (\<exists>y. outputs (self_model cnn) =
         Apply (Dense (num_classes a) None (if multi_label a then ''sigmoid'' else ''softmax'')) y
           [None, Some (num_classes a)]) \<and>
      (\<forall>batch. fst (TextCNN_call cnn [batch, max_seq_len a]) = Inr [batch, num_classes a])) \<and>
   (TextRCNN_init fw b = Inr rcnn \<longrightarrow>
      (\<exists>y. outputs (self_model rcnn) =
         Apply (Dense (num_classes b) None (if multi_label b then ''sigmoid'' else ''softmax'')) y
           [None, Some (num_classes b)]) \<and>
      (\<forall>batch. fst (TextRCNN_call rcnn [batch, max_seq_len b]) = Inr [batch, num_classes b]))"
proof (intro conjI impI)
  assume init: "TextCNN_init fw a = Inr cnn"
  from TextCNN_structure [OF init] obtain y where
    inp: "inputs (self_model cnn) = Input [None, Some (max_seq_len a)] ''int32''"
    and out: "outputs (self_model cnn) =
            Apply (Dense (num_classes a) None (output_activation a)) y [None, Some (num_classes a)]"
    by (elim exE conjE)
  from out show "\<exists>y. outputs (self_model cnn) =
         Apply (Dense (num_classes a) None (if multi_label a then ''sigmoid'' else ''softmax'')) y
           [None, Some (num_classes a)]"
    by (simp add: output_activation_def)
  have "Model_call (self_model cnn) [batch, max_seq_len a] = Inr [batch, num_classes a]" for batch
    by (rule Model_call_fitting) (simp_all add: inp out)
  then show "\<forall>batch. fst (TextCNN_call cnn [batch, max_seq_len a]) = Inr [batch, num_classes a]"
    by (simp add: TextCNN_call_def)
next
  assume init: "TextRCNN_init fw b = Inr rcnn"
  from TextRCNN_structure [OF init] obtain y where
    inp: "inputs (self_model rcnn) = Input [None, Some (max_seq_len b)] ''int32''"
    and out: "outputs (self_model rcnn) =
            Apply (Dense (num_classes b) None (output_activation b)) y [None, Some (num_classes b)]"
    by (elim exE conjE)
  from out show "\<exists>y. outputs (self_model rcnn) =
         Apply (Dense (num_classes b) None (if multi_label b then ''sigmoid'' else ''softmax'')) y
           [None, Some (num_classes b)]"
    by (simp add: output_activation_def)
  have "Model_call (self_model rcnn) [batch, max_seq_len b] = Inr [batch, num_classes b]" for batch
    by (rule Model_call_fitting) (simp_all add: inp out)
  then show "\<forall>batch. fst (TextRCNN_call rcnn [batch, max_seq_len b]) = Inr [batch, num_classes b]"
    by (simp add: TextRCNN_call_def)
qed

theorem output_layer_and_shape_witness:
  "TextCNN_init strict_keras cnn_example = Inr cnn_example_self \<and>
   (\<exists>y. outputs (self_model cnn_example_self) = Apply (Dense 3 None ''sigmoid'') y [None, Some 3]) \<and>
   fst (TextCNN_call cnn_example_self [2, 10]) = Inr [2, 3] \<and>
   TextRCNN_init strict_keras rcnn_example = Inr rcnn_example_self \<and>
   (\<exists>y. outputs (self_model rcnn_example_self) = Apply (Dense 3 None ''softmax'') y [None, Some 3]) \<and>
   fst (TextRCNN_call rcnn_example_self [1, 5]) = Inr [1, 3]"
  using output_layer_and_shape [of strict_keras cnn_example cnn_example_self rcnn_example rcnn_example_self]
    cnn_example_init rcnn_example_init
  by (simp add: cnn_example_def rcnn_example_def)

section \<open>The pooling strategy\<close>

lemma pooling_ops_classifier_input: "pooling_ops (classifier_input t) = pooling_ops t"
  by (induction t rule: classifier_input.induct) simp_all

lemma pooling_ops_embedded_input:
  "pooling_ops (embedded_input (Embedding v d w t n) L d') = []"
  by (simp add: embedded_input_def)

lemma pooling_ops_spec_conv_branch:
  "pooling_ops (spec_conv_branch filters L x w) = MaxPooling1D (L - w + 1) # pooling_ops x"
  by (simp add: spec_conv_branch_def)

lemma pooling_ops_spec_pooled:
  "pooling_ops (spec_pooled units conv_units L d x) = Lambda (K_max 1) # pooling_ops x @ pooling_ops x @ pooling_ops x"
  by (simp add: spec_pooled_def spec_together_def)

lemma concat_singletons: "concat (map (\<lambda>w. [f w]) ws) = map f ws"
  by (induction ws) simp_all

lemma TextCNN_pooling_ops:
  assumes "TextCNN_init fw a = Inr self"
  shows "pooling_ops (outputs (self_model self)) =
           map (\<lambda>w. MaxPooling1D (max_seq_len a - w + 1)) (filter_sizes a)"
proof -
  from TextCNN_structure [OF assms] obtain emb y where
    emb: "init_embedding_layer (embedding_matrix a) (embedding_dim a) (embedding_vocab_size a)
            (embedding_trainable a) (max_seq_len a) = Inr emb"
    and out: "outputs (self_model self) =
            Apply (Dense (num_classes a) None (output_activation a)) y [None, Some (num_classes a)]"
    and y: "classifier_input y =
      Concatenate
        (map (spec_conv_branch (num_filters a) (max_seq_len a)
                (embedded_input emb (max_seq_len a) (embedding_width a))) (filter_sizes a))
        1 [None, Some (num_filters a * int (length (filter_sizes a)))]"
    by (elim exE conjE)
  from init_embedding_layer_Inr [OF emb] obtain v w t where
    emb_eq: "emb = Embedding v (embedding_width a) w t (max_seq_len a)"
    by (elim exE)
  have "pooling_ops (outputs (self_model self)) = pooling_ops (classifier_input y)"
    unfolding out by (simp add: pooling_ops_classifier_input)
  then show ?thesis
    unfolding y emb_eq
    by (simp add: o_def pooling_ops_spec_conv_branch pooling_ops_embedded_input concat_singletons)
qed

lemma TextRCNN_pooling_ops:
  assumes "TextRCNN_init fw a = Inr self"
  shows "pooling_ops (outputs (self_model self)) = [Lambda (K_max 1)]"
proof -
  from TextRCNN_structure [OF assms] obtain emb y where
    emb: "init_embedding_layer (embedding_matrix a) (embedding_dim a) (embedding_vocab_size a)
            (embedding_trainable a) (max_seq_len a) = Inr emb"
    and out: "outputs (self_model self) =
            Apply (Dense (num_classes a) None (output_activation a)) y [None, Some (num_classes a)]"
    and y: "classifier_input y =
      spec_pooled (rnn_hidden_units a) (conv_hidden_units a) (max_seq_len a) (embedding_width a)
        (embedded_input emb (max_seq_len a) (embedding_width a))"
    by (elim exE conjE)
  from init_embedding_layer_Inr [OF emb] obtain v w t where
    emb_eq: "emb = Embedding v (embedding_width a) w t (max_seq_len a)"
    by (elim exE)
  have "pooling_ops (outputs (self_model self)) = pooling_ops (classifier_input y)"
    unfolding out by (simp add: pooling_ops_classifier_input)
  then show ?thesis
    unfolding y emb_eq
    by (simp add: pooling_ops_spec_pooled pooling_ops_embedded_input)
qed

lemma layer_hiddens_loop_pooling_strategy:
  "layer_hiddens_loop fw (a\<lparr>pooling_strategy := s\<rparr>) = layer_hiddens_loop fw a"
  by (simp add: layer_hiddens_loop_def)

lemma output_activation_pooling_strategy:
  "output_activation (a\<lparr>pooling_strategy := s\<rparr>) = output_activation a"
  by (simp add: output_activation_def)

lemma TextCNN_model_pooling_strategy:
  "map_sum id self_model (TextCNN_init fw (a\<lparr>pooling_strategy := s\<rparr>)) =
   map_sum id self_model (TextCNN_init fw a)"
  unfolding TextCNN_init_def Let_def
  by (simp add: map_sum_bindE layer_hiddens_loop_pooling_strategy output_activation_pooling_strategy)

lemma TextRCNN_model_pooling_strategy:
  "map_sum id self_model (TextRCNN_init fw (a\<lparr>pooling_strategy := s\<rparr>)) =
   map_sum id self_model (TextRCNN_init fw a)"
  unfolding TextRCNN_init_def Let_def
  by (simp add: map_sum_bindE layer_hiddens_loop_pooling_strategy output_activation_pooling_strategy)

lemma TextCNN_pooling_strategy_models:
  assumes c1: "TextCNN_init fw (a\<lparr>pooling_strategy := s1\<rparr>) = Inr c1"
    and c2: "TextCNN_init fw (a\<lparr>pooling_strategy := s2\<rparr>) = Inr c2"
  shows "self_model c1 = self_model c2 \<and>
      (\<forall>xs. fst (TextCNN_call c1 xs) = fst (TextCNN_call c2 xs)) \<and>
      pooling_ops (outputs (self_model c1)) =
        map (\<lambda>w. MaxPooling1D (max_seq_len a - w + 1)) (filter_sizes a) \<and>
      list_all is_max_pooling (pooling_ops (outputs (self_model c1)))"
proof -
  have "map_sum id self_model (TextCNN_init fw (a\<lparr>pooling_strategy := s1\<rparr>)) =
     map_sum id self_model (TextCNN_init fw (a\<lparr>pooling_strategy := s2\<rparr>))"
    by (simp only: TextCNN_model_pooling_strategy)
  then have m: "self_model c1 = self_model c2"
    unfolding c1 c2 by simp
  have "pooling_ops (outputs (self_model c1)) =
        map (\<lambda>w. MaxPooling1D (max_seq_len (a\<lparr>pooling_strategy := s1\<rparr>) - w + 1))
          (filter_sizes (a\<lparr>pooling_strategy := s1\<rparr>))"
    using c1 by (rule TextCNN_pooling_ops)
  then have p: "pooling_ops (outputs (self_model c1)) =
        map (\<lambda>w. MaxPooling1D (max_seq_len a - w + 1)) (filter_sizes a)"
    by simp
  have q: "list_all is_max_pooling (pooling_ops (outputs (self_model c1)))"
    unfolding p by (simp add: list_all_iff)
  from m p q show ?thesis
    by (simp add: TextCNN_call_def)
qed

lemma TextRCNN_pooling_strategy_models:
  assumes r1: "TextRCNN_init fw (b\<lparr>pooling_strategy := s1\<rparr>) = Inr r1"
    and r2: "TextRCNN_init fw (b\<lparr>pooling_strategy := s2\<rparr>) = Inr r2"
  shows "self_model r1 = self_model r2 \<and>
      (\<forall>xs. fst (TextRCNN_call r1 xs) = fst (TextRCNN_call r2 xs)) \<and>
      pooling_ops (outputs (self_model r1)) = [Lambda (K_max 1)] \<and>
      list_all is_max_pooling (pooling_ops (outputs (self_model r1)))"
proof -
  have "map_sum id self_model (TextRCNN_init fw (b\<lparr>pooling_strategy := s1\<rparr>)) =
     map_sum id self_model (TextRCNN_init fw (b\<lparr>pooling_strategy := s2\<rparr>))"
    by (simp only: TextRCNN_model_pooling_strategy)
  then have m: "self_model r1 = self_model r2"
    unfolding r1 r2 by simp
  have p: "pooling_ops (outputs (self_model r1)) = [Lambda (K_max 1)]"
    using r1 by (rule TextRCNN_pooling_ops)
  have q: "list_all is_max_pooling (pooling_ops (outputs (self_model r1)))"
    unfolding p by simp
  from m p q show ?thesis
    by (simp add: TextRCNN_call_def)
qed

text \<open>
  C4. Two configurations of either model that differ only in \<open>pooling_strategy\<close> are
  both rejected with the same error or are both constructed with the same layer graph;
  the constructed models answer every call alike, and every pooling operation of the
  graph is a max: the \<open>MaxPooling1D\<close> of each branch in \<open>TextCNN\<close>, the maximum over the
  sequence axis in \<open>TextRCNN\<close>.
\<close>

theorem pooling_strategy_unused:
  "map_sum id self_model (TextCNN_init fw (a\<lparr>pooling_strategy := s1\<rparr>)) =
     map_sum id self_model (TextCNN_init fw (a\<lparr>pooling_strategy := s2\<rparr>)) \<and>
   map_sum id self_model (TextRCNN_init fw (b\<lparr>pooling_strategy := s1\<rparr>)) =
     map_sum id self_model (TextRCNN_init fw (b\<lparr>pooling_strategy := s2\<rparr>)) \<and>
   (TextCNN_init fw (a\<lparr>pooling_strategy := s1\<rparr>) = Inr c1 \<longrightarrow>
    TextCNN_init fw (a\<lparr>pooling_strategy := s2\<rparr>) = Inr c2 \<longrightarrow>
      self_model c1 = self_model c2 \<and>
      (\<forall>xs. fst (TextCNN_call c1 xs) = fst (TextCNN_call c2 xs)) \<and>
      pooling_ops (outputs (self_model c1)) =
        map (\<lambda>w. MaxPooling1D (max_seq_len a - w + 1)) (filter_sizes a) \<and>
      list_all is_max_pooling (pooling_ops (outputs (self_model c1)))) \<and>
   (TextRCNN_init fw (b\<lparr>pooling_strategy := s1\<rparr>) = Inr r1 \<longrightarrow>
    TextRCNN_init fw (b\<lparr>pooling_strategy := s2\<rparr>) = Inr r2 \<longrightarrow>
      self_model r1 = self_model r2 \<and>
      (\<forall>xs. fst (TextRCNN_call r1 xs) = fst (TextRCNN_call r2 xs)) \<and>
      pooling_ops (outputs (self_model r1)) = [Lambda (K_max 1)] \<and>
      list_all is_max_pooling (pooling_ops (outputs (self_model r1))))"
proof -
  have cnn_models: "map_sum id self_model (TextCNN_init fw (a\<lparr>pooling_strategy := s1\<rparr>)) =
     map_sum id self_model (TextCNN_init fw (a\<lparr>pooling_strategy := s2\<rparr>))"
    by (simp only: TextCNN_model_pooling_strategy)
  have rcnn_models: "map_sum id self_model (TextRCNN_init fw (b\<lparr>pooling_strategy := s1\<rparr>)) =
     map_sum id self_model (TextRCNN_init fw (b\<lparr>pooling_strategy := s2\<rparr>))"
    by (simp only: TextRCNN_model_pooling_strategy)
  have cnn_built: "TextCNN_init fw (a\<lparr>pooling_strategy := s1\<rparr>) = Inr c1 \<longrightarrow>
    TextCNN_init fw (a\<lparr>pooling_strategy := s2\<rparr>) = Inr c2 \<longrightarrow>
      self_model c1 = self_model c2 \<and>
      (\<forall>xs. fst (TextCNN_call c1 xs) = fst (TextCNN_call c2 xs)) \<and>
      pooling_ops (outputs (self_model c1)) =
        map (\<lambda>w. MaxPooling1D (max_seq_len a - w + 1)) (filter_sizes a) \<and>
      list_all is_max_pooling (pooling_ops (outputs (self_model c1)))"
    by (intro impI, rule TextCNN_pooling_strategy_models)
  have rcnn_built: "TextRCNN_init fw (b\<lparr>pooling_strategy := s1\<rparr>) = Inr r1 \<longrightarrow>
    TextRCNN_init fw (b\<lparr>pooling_strategy := s2\<rparr>) = Inr r2 \<longrightarrow>
      self_model r1 = self_model r2 \<and>
      (\<forall>xs. fst (TextRCNN_call r1 xs) = fst (TextRCNN_call r2 xs)) \<and>
      pooling_ops (outputs (self_model r1)) = [Lambda (K_max 1)] \<and>
      list_all is_max_pooling (pooling_ops (outputs (self_model r1)))"
    by (intro impI, rule TextRCNN_pooling_strategy_models)
  show ?thesis
    by (rule conjI, rule cnn_models, rule conjI, rule rcnn_models, rule conjI, rule cnn_built,
        rule rcnn_built)
qed

theorem pooling_strategy_unused_witness:
  "TextCNN_init strict_keras (cnn_example\<lparr>pooling_strategy := ''REDUCE_MEAN''\<rparr>) =
     Inr (cnn_example_self\<lparr>self_pooling_strategy := ''REDUCE_MEAN''\<rparr>) \<and>
   TextCNN_init strict_keras (cnn_example\<lparr>pooling_strategy := ''REDUCE_MAX''\<rparr>) = Inr cnn_example_self \<and>
   pooling_ops (outputs (self_model (cnn_example_self\<lparr>self_pooling_strategy := ''REDUCE_MEAN''\<rparr>))) =
     [MaxPooling1D 9, MaxPooling1D 8] \<and>
   fst (TextCNN_call (cnn_example_self\<lparr>self_pooling_strategy := ''REDUCE_MEAN''\<rparr>) [2, 10]) =
     fst (TextCNN_call cnn_example_self [2, 10]) \<and>
   TextRCNN_init strict_keras (rcnn_example\<lparr>pooling_strategy := ''REDUCE_MEAN''\<rparr>) =
     Inr (rcnn_example_self\<lparr>self_pooling_strategy := ''REDUCE_MEAN''\<rparr>) \<and>
   TextRCNN_init strict_keras (rcnn_example\<lparr>pooling_strategy := ''REDUCE_MAX''\<rparr>) = Inr rcnn_example_self \<and>
   pooling_ops (outputs (self_model (rcnn_example_self\<lparr>self_pooling_strategy := ''REDUCE_MEAN''\<rparr>))) =
     [Lambda (K_max 1)] \<and>
   fst (TextRCNN_call (rcnn_example_self\<lparr>self_pooling_strategy := ''REDUCE_MEAN''\<rparr>) [1, 5]) =
     fst (TextRCNN_call rcnn_example_self [1, 5])"
proof -
  have c1: "TextCNN_init strict_keras (cnn_example\<lparr>pooling_strategy := ''REDUCE_MEAN''\<rparr>) =
     Inr (cnn_example_self\<lparr>self_pooling_strategy := ''REDUCE_MEAN''\<rparr>)"
    by (simp add: eval_defs cnn_example_def cnn_example_self_def cnn_example_convs_def cnn_example_x_def)
  have c2: "TextCNN_init strict_keras (cnn_example\<lparr>pooling_strategy := ''REDUCE_MAX''\<rparr>) = Inr cnn_example_self"
    using cnn_example_init by (simp add: cnn_example_def)
  have r1: "TextRCNN_init strict_keras (rcnn_example\<lparr>pooling_strategy := ''REDUCE_MEAN''\<rparr>) =
     Inr (rcnn_example_self\<lparr>self_pooling_strategy := ''REDUCE_MEAN''\<rparr>)"
    by (simp add: eval_defs rcnn_example_def rcnn_example_self_def rcnn_example_x_def)
  have r2: "TextRCNN_init strict_keras (rcnn_example\<lparr>pooling_strategy := ''REDUCE_MAX''\<rparr>) = Inr rcnn_example_self"
    using rcnn_example_init by (simp add: rcnn_example_def)
  note unused = pooling_strategy_unused [where fw = strict_keras and a = cnn_example and b = rcnn_example
      and ?s1.0 = "''REDUCE_MEAN''" and ?s2.0 = "''REDUCE_MAX''"
      and ?c1.0 = "cnn_example_self\<lparr>self_pooling_strategy := ''REDUCE_MEAN''\<rparr>" and ?c2.0 = cnn_example_self
      and ?r1.0 = "rcnn_example_self\<lparr>self_pooling_strategy := ''REDUCE_MEAN''\<rparr>" and ?r2.0 = rcnn_example_self]
  from unused c1 c2 have cnn_ops:
    "pooling_ops (outputs (self_model (cnn_example_self\<lparr>self_pooling_strategy := ''REDUCE_MEAN''\<rparr>))) =
       map (\<lambda>w. MaxPooling1D (max_seq_len cnn_example - w + 1)) (filter_sizes cnn_example)"
    and cnn_calls:
    "fst (TextCNN_call (cnn_example_self\<lparr>self_pooling_strategy := ''REDUCE_MEAN''\<rparr>) [2, 10]) =
     fst (TextCNN_call cnn_example_self [2, 10])"
    by blast+
  from unused r1 r2 have rcnn_ops:
    "pooling_ops (outputs (self_model (rcnn_example_self\<lparr>self_pooling_strategy := ''REDUCE_MEAN''\<rparr>))) =
       [Lambda (K_max 1)]"
    and rcnn_calls:
    "fst (TextRCNN_call (rcnn_example_self\<lparr>self_pooling_strategy := ''REDUCE_MEAN''\<rparr>) [1, 5]) =
     fst (TextRCNN_call rcnn_example_self [1, 5])"
    by blast+
  from cnn_ops have cnn_ops': "pooling_ops (outputs (self_model (cnn_example_self\<lparr>self_pooling_strategy := ''REDUCE_MEAN''\<rparr>))) =
     [MaxPooling1D 9, MaxPooling1D 8]"
    by (simp add: cnn_example_def)
  show ?thesis
    by (intro conjI) (rule c1 c2 r1 r2 cnn_ops' cnn_calls rcnn_ops rcnn_calls)+
qed

section \<open>The call method\<close>

lemma Model_call_not_AssertionError: "Model_call m xs \<noteq> Inl AssertionError"
  by (simp add: Model_call_def split: list.splits)

text \<open>
  C5. For every model object of either class and every input array, \<open>call\<close> fails with
  the assertion error when the rank of the input is not 2 (no reshaping, no result); when
  the rank is 2 the assertion passes and the result is that of applying the model.
\<close>

theorem call_asserts_rank_2:
  "(length inputs_shape \<noteq> 2 \<longrightarrow>
      fst (TextCNN_call cnn inputs_shape) = Inl AssertionError \<and>
      fst (TextRCNN_call rcnn inputs_shape) = Inl AssertionError) \<and>
   (length inputs_shape = 2 \<longrightarrow>
      fst (TextCNN_call cnn inputs_shape) = Model_call (self_model cnn) inputs_shape \<and>
      fst (TextRCNN_call rcnn inputs_shape) = Model_call (self_model rcnn) inputs_shape)"
  by (simp add: TextCNN_call_def TextRCNN_call_def)

theorem call_asserts_rank_2_witness:
  "length [10 :: int] \<noteq> 2 \<and>
   fst (TextCNN_call cnn_example_self [10]) = Inl AssertionError \<and>
   fst (TextRCNN_call rcnn_example_self [10]) = Inl AssertionError \<and>
   length [2, 10, 1 :: int] \<noteq> 2 \<and>
   fst (TextCNN_call cnn_example_self [2, 10, 1]) = Inl AssertionError \<and>
   fst (TextRCNN_call rcnn_example_self [2, 10, 1]) = Inl AssertionError \<and>
   length [2, 10 :: int] = 2 \<and>
   fst (TextCNN_call cnn_example_self [2, 10]) = Model_call (self_model cnn_example_self) [2, 10] \<and>
   fst (TextRCNN_call rcnn_example_self [2, 10]) = Model_call (self_model rcnn_example_self) [2, 10]"
  using call_asserts_rank_2 [where inputs_shape = "[10]" and cnn = cnn_example_self and rcnn = rcnn_example_self]
    call_asserts_rank_2 [where inputs_shape = "[2, 10, 1]" and cnn = cnn_example_self and rcnn = rcnn_example_self]
    call_asserts_rank_2 [where inputs_shape = "[2, 10]" and cnn = cnn_example_self and rcnn = rcnn_example_self]
  by simp

text \<open>
  C9. \<open>call\<close> returns the model object as it received it: after any sequence of calls,
  failed ones included, every attribute set by the constructor and the layer graph are
  what they were.
\<close>

theorem call_keeps_model:
  "foldl (\<lambda>self inputs_shape. snd (TextCNN_call self inputs_shape)) cnn calls = cnn \<and>
   foldl (\<lambda>self inputs_shape. snd (TextRCNN_call self inputs_shape)) rcnn calls = rcnn"
proof (induction calls)
  case Nil
  show ?case by simp
next
  case (Cons inputs_shape calls)
  have "snd (TextCNN_call cnn inputs_shape) = cnn" and "snd (TextRCNN_call rcnn inputs_shape) = rcnn"
    by (simp_all add: TextCNN_call_def TextRCNN_call_def)
  with Cons.IH show ?case by simp
qed

theorem call_keeps_model_witness:
  "foldl (\<lambda>self inputs_shape. snd (TextCNN_call self inputs_shape)) cnn_example_self
     [[2, 10], [10], [2, 7]] = cnn_example_self \<and>
   foldl (\<lambda>self inputs_shape. snd (TextRCNN_call self inputs_shape)) rcnn_example_self
     [[2, 10], [10], [2, 7]] = rcnn_example_self"
  by (rule call_keeps_model)

text \<open>
  C10. The check of \<open>call\<close> is on the rank only: a rank-2 input whose second dimension
  is not \<open>max_seq_len\<close> passes the assertion and is handed to the model; whatever happens
  then is the result of the model's application, which is never the assertion error.
\<close>

theorem call_checks_rank_only:
  "(n \<noteq> self_max_seq_len cnn \<longrightarrow>
      fst (TextCNN_call cnn [batch, n]) = Model_call (self_model cnn) [batch, n] \<and>
      fst (TextCNN_call cnn [batch, n]) \<noteq> Inl AssertionError) \<and>
   (n \<noteq> self_max_seq_len rcnn \<longrightarrow>
      fst (TextRCNN_call rcnn [batch, n]) = Model_call (self_model rcnn) [batch, n] \<and>
      fst (TextRCNN_call rcnn [batch, n]) \<noteq> Inl AssertionError)"
  by (simp add: TextCNN_call_def TextRCNN_call_def Model_call_not_AssertionError)

theorem call_checks_rank_only_witness:
  "7 \<noteq> self_max_seq_len cnn_example_self \<and>
   fst (TextCNN_call cnn_example_self [2, 7]) = Model_call (self_model cnn_example_self) [2, 7] \<and>
   fst (TextCNN_call cnn_example_self [2, 7]) \<noteq> Inl AssertionError \<and>
   7 \<noteq> self_max_seq_len rcnn_example_self \<and>
   fst (TextRCNN_call rcnn_example_self [2, 7]) = Model_call (self_model rcnn_example_self) [2, 7] \<and>
   fst (TextRCNN_call rcnn_example_self [2, 7]) \<noteq> Inl AssertionError"
proof -
  have cnn: "7 \<noteq> self_max_seq_len cnn_example_self"
    by (simp add: cnn_example_self_def)
  have rcnn: "7 \<noteq> self_max_seq_len rcnn_example_self"
    by (simp add: rcnn_example_self_def)
  from call_checks_rank_only [where n = 7 and batch = 2 and cnn = cnn_example_self
      and rcnn = rcnn_example_self] cnn rcnn
  show ?thesis by blast
qed

section \<open>Failures of the constructors\<close>

lemma pooling1d_shape_nonpositive:
  "pool_size \<le> 0 \<Longrightarrow> pooling1d_shape pool_size s = Inl FrameworkError"
  by (cases "(pool_size, s)" rule: pooling1d_shape.cases) simp_all

lemma not_isl_Inr: "\<not> isl r \<Longrightarrow> \<exists>v. r = Inr v"
  by (cases r) simp_all

text \<open>
  C6. If some element \<open>w\<close> of \<open>filter_sizes\<close> is greater than \<open>max_seq_len\<close>, the
  constructor of \<open>TextCNN\<close> fails, so that no model exists to be called; the pooling
  window \<open>max_seq_len - w + 1\<close> of that branch is not positive, and a pooling layer with
  that window accepts no input.
\<close>

theorem filter_size_exceeds_max_seq_len:
  assumes "w \<in> set (filter_sizes a)" and "max_seq_len a < w"
  shows "isl (TextCNN_init fw a) \<and>
         max_seq_len a - w + 1 \<le> 0 \<and>
         (\<forall>s. compute_output_shape (MaxPooling1D (max_seq_len a - w + 1)) s = Inl FrameworkError)"
proof -
  let ?mk = "\<lambda>fsz. (Conv1D (num_filters a) fsz ''relu'', MaxPooling1D (max_seq_len a - fsz + 1), Flatten)"
  have fails: "isl (TextCNN_init fw a)"
  proof (rule ccontr)
    assume "\<not> isl (TextCNN_init fw a)"
    then have "\<exists>self. TextCNN_init fw a = Inr self"
      by (rule not_isl_Inr)
    then obtain self where init: "TextCNN_init fw a = Inr self"
      by (elim exE)
    from TextCNN_stages [OF init] obtain emb x convs where
      emb: "init_embedding_layer (embedding_matrix a) (embedding_dim a) (embedding_vocab_size a)
              (embedding_trainable a) (max_seq_len a) = Inr emb"
      and x: "call_layer emb (Input [None, Some (max_seq_len a)] ''int32'') = Inr x"
      and convs: "mapE (conv_branch x) (map ?mk (filter_sizes a)) = Inr convs"
      by (elim exE conjE)
    from init_embedding_layer_Inr [OF emb] obtain v m t where
      emb_eq: "emb = Embedding v (embedding_width a) m t (max_seq_len a)"
      by (elim exE)
    from x have xs: "tshape x = [None, Some (max_seq_len a), Some (embedding_width a)]"
      unfolding emb_eq by (auto simp: call_layer_eq_Inr)
    from assms(1) have mem: "?mk w \<in> set (map ?mk (filter_sizes a))"
      by (simp add: image_iff)
    from mapE_member [OF convs mem] obtain y where y: "conv_branch x (?mk w) = Inr y"
      by (elim exE)
    from xs y have "w \<le> max_seq_len a"
      by (rule conv_branch_spec(3))
    with assms(2) show False by simp
  qed
  from assms(2) have window: "max_seq_len a - w + 1 \<le> 0" by simp
  then have "compute_output_shape (MaxPooling1D (max_seq_len a - w + 1)) s = Inl FrameworkError" for s
    by (simp add: pooling1d_shape_nonpositive)
  with fails window show ?thesis by simp
qed

theorem filter_size_exceeds_max_seq_len_witness:
  "11 \<in> set (filter_sizes (cnn_example\<lparr>filter_sizes := [2, 11]\<rparr>)) \<and>
   max_seq_len (cnn_example\<lparr>filter_sizes := [2, 11]\<rparr>) < 11 \<and>
   isl (TextCNN_init strict_keras (cnn_example\<lparr>filter_sizes := [2, 11]\<rparr>)) \<and>
   compute_output_shape (MaxPooling1D (10 - 11 + 1)) [None, Some 10, Some 4] = Inl FrameworkError"
proof -
  have w: "11 \<in> set (filter_sizes (cnn_example\<lparr>filter_sizes := [2, 11]\<rparr>))"
    by simp
  have len: "max_seq_len (cnn_example\<lparr>filter_sizes := [2, 11]\<rparr>) < 11"
    by (simp add: cnn_example_def)
  have "max_seq_len (cnn_example\<lparr>filter_sizes := [2, 11]\<rparr>) = 10"
    by (simp add: cnn_example_def)
  with filter_size_exceeds_max_seq_len [OF w len, of strict_keras] w len
  show ?thesis by simp
qed

text \<open>
  C7. Whatever the other arguments, constructing either model without an embedding
  matrix fails with the configuration error of the embedding factory when
  \<open>embedding_vocab_size\<close> is \<open>None\<close>, and also when \<open>embedding_trainable\<close> is \<open>False\<close>.
\<close>

theorem missing_embedding_configuration:
  "(embedding_matrix a = None \<and> (embedding_vocab_size a = None \<or> \<not> embedding_trainable a) \<longrightarrow>
      TextCNN_init fw a = Inl ConfigurationError) \<and>
   (embedding_matrix b = None \<and> (embedding_vocab_size b = None \<or> \<not> embedding_trainable b) \<longrightarrow>
      TextRCNN_init fw b = Inl ConfigurationError)"
  by (auto simp: TextCNN_init_def TextRCNN_init_def init_embedding_layer_def Let_def
      split: option.splits)

theorem missing_embedding_configuration_witness:
  "embedding_matrix (cnn_example\<lparr>embedding_vocab_size := None\<rparr>) = None \<and>
   embedding_vocab_size (cnn_example\<lparr>embedding_vocab_size := None\<rparr>) = None \<and>
   TextCNN_init strict_keras (cnn_example\<lparr>embedding_vocab_size := None\<rparr>) = Inl ConfigurationError \<and>
   embedding_matrix (rcnn_example\<lparr>embedding_trainable := False\<rparr>) = None \<and>
   \<not> embedding_trainable (rcnn_example\<lparr>embedding_trainable := False\<rparr>) \<and>
   TextRCNN_init strict_keras (rcnn_example\<lparr>embedding_trainable := False\<rparr>) = Inl ConfigurationError"
proof -
  have cnn: "embedding_matrix (cnn_example\<lparr>embedding_vocab_size := None\<rparr>) = None"
    by (simp add: cnn_example_def)
  have rcnn: "embedding_matrix (rcnn_example\<lparr>embedding_trainable := False\<rparr>) = None"
    by (simp add: rcnn_example_def)
  from missing_embedding_configuration [where fw = strict_keras
      and a = "cnn_example\<lparr>embedding_vocab_size := None\<rparr>"
      and b = "rcnn_example\<lparr>embedding_trainable := False\<rparr>"] cnn rcnn
  show ?thesis by simp
qed

section \<open>The dropout rate\<close>














end
